theory Spec2Isabelle
  imports Main
begin

section \<open>The chat Session (the Session class of src/caws/cawsStatusbar.ts)\<close>

text \<open>
  The Session class holds one state object at a time and delegates each chat message to
  it. The state classes, the retry limits and the services the Session calls
  (the conversation client, the file collector, telemetry, the messenger) belong to
  other modules; they enter the model as parameters, and the calls made to them are
  recorded as events.
\<close>

subsection \<open>Errors and events\<close>

datatype error =
    ConversationIdNotFoundError
  | Error string
  | Rejected string
  | TypeError string

text \<open>
  \<open>Error msg\<close> is a \<^verbatim>\<open>new Error(msg)\<close> thrown by the code itself;
  \<open>Rejected\<close> stands for whatever a call to a service throws or rejects with;
  \<open>TypeError p\<close> is what reading a property of \<^verbatim>\<open>undefined\<close> throws, \<open>p\<close> being the
  property that was \<^verbatim>\<open>undefined\<close>.
\<close>

text \<open>The state classes the Session builds, in the order of the spec's sequence.\<close>

datatype state_class =
    ConversationNotStartedState
  | PrepareRefinementState
  | PrepareCodeGenState

text \<open>
  A state object as far as the Session reads or writes it. \<open>cls\<close> is the class the
  object was built from and \<open>phase\<close> its phase field. \<open>tokenSource\<close> records whether
  \<^verbatim>\<open>tokenSource.cancel()\<close> has been called. \<open>st_uploadId\<close> is \<open>None\<close> when the object
  has no \<^verbatim>\<open>uploadId\<close> property (the test \<^verbatim>\<open>'uploadId' in this.state\<close>), and the three
  lists are \<open>None\<close> when the property is missing (\<^verbatim>\<open>this.state.filePaths ?? []\<close>).
  \<open>st_approach\<close> and \<open>st_tabID\<close> are the state's \<^verbatim>\<open>approach\<close> and \<^verbatim>\<open>tabID\<close>, and
  \<open>st_conversationId\<close> is the conversation id of the configuration it was built with.
\<close>

record SessionState =
  cls :: state_class
  phase :: string
  st_approach :: string
  st_tabID :: string
  tokenSource :: bool
  st_conversationId :: "string option"
  st_uploadId :: "string option"
  filePaths :: "string list option"
  deletedFiles :: "string list option"
  references :: "string list option"
  currentIteration :: "nat option"

datatype event =
    StateAssigned SessionState
  | TokenCancelled SessionState
  | StartChatEmitted string
  | AsyncEventProgressSent string bool
  | ApproachAcceptedEmitted string bool
  | FileWritten string string
  | FileDeleted string
  | ReferenceLogAdded string

text \<open>
  \<open>StateAssigned st\<close> is an assignment \<^verbatim>\<open>this._state = st\<close>; \<open>TokenCancelled st\<close> is the
  call \<^verbatim>\<open>tokenSource.cancel()\<close> on the state object \<open>st\<close>. The list of events of an
  operation is in the order the source performs them.
\<close>

subsection \<open>What the Session imports\<close>

text \<open>
  The constants of \<^verbatim>\<open>../limits\<close> and the phase each state class declares are defined
  in other modules; they are parameters of the model.
\<close>

record imported =
  approachRetryLimit :: int
  codeGenRetryLimit :: int
  phaseOf :: "state_class \<Rightarrow> string"

record SessionConfig =
  sourceRoot :: string
  workspaceRoot :: string

text \<open>The three constructor calls the Session makes, with the arguments it passes.\<close>

definition new_ConversationNotStartedState :: "imported \<Rightarrow> string \<Rightarrow> string \<Rightarrow> SessionState" where
  "new_ConversationNotStartedState im appr tab =
     \<lparr> cls = ConversationNotStartedState, phase = phaseOf im ConversationNotStartedState,
       st_approach = appr, st_tabID = tab, tokenSource = False,
       st_conversationId = None, st_uploadId = None,
       filePaths = None, deletedFiles = None, references = None, currentIteration = None \<rparr>"

definition new_PrepareRefinementState :: "imported \<Rightarrow> string \<Rightarrow> string \<Rightarrow> string \<Rightarrow> SessionState" where
  "new_PrepareRefinementState im cid appr tab =
     \<lparr> cls = PrepareRefinementState, phase = phaseOf im PrepareRefinementState,
       st_approach = appr, st_tabID = tab, tokenSource = False,
       st_conversationId = Some cid, st_uploadId = None,
       filePaths = None, deletedFiles = None, references = None, currentIteration = None \<rparr>"

definition new_PrepareCodeGenState ::
  "imported \<Rightarrow> string \<Rightarrow> string \<Rightarrow> string \<Rightarrow> string list \<Rightarrow> string list \<Rightarrow> string list
     \<Rightarrow> string \<Rightarrow> nat \<Rightarrow> SessionState" where
  "new_PrepareCodeGenState im cid uid appr fps dels refs tab it =
     \<lparr> cls = PrepareCodeGenState, phase = phaseOf im PrepareCodeGenState,
       st_approach = appr, st_tabID = tab, tokenSource = False,
       st_conversationId = Some cid, st_uploadId = Some uid,
       filePaths = Some fps, deletedFiles = Some dels, references = Some refs,
       currentIteration = Some it \<rparr>"

subsection \<open>The Session object\<close>

text \<open>
  The fields of the class; \<open>p_state\<close>, \<open>p_conversationId\<close> and \<open>p_latestMessage\<close> are the
  private fields \<^verbatim>\<open>_state\<close>, \<^verbatim>\<open>_conversationId\<close> and \<^verbatim>\<open>_latestMessage\<close>. The retry
  counters start at small integer constants and only ever lose one, so they are integers.
\<close>

record Session =
  config :: SessionConfig
  tabID :: string
  p_state :: "SessionState option"
  task :: string
  approach :: string
  p_conversationId :: "string option"
  approachRetries :: int
  codeGenRetries :: int
  preloaderFinished :: bool
  p_latestMessage :: string
  isAuthenticating :: bool

definition Session_new :: "imported \<Rightarrow> SessionConfig \<Rightarrow> string \<Rightarrow> Session" where
  "Session_new im cfg tab =
     \<lparr> config = cfg, tabID = tab,
       p_state = Some (new_ConversationNotStartedState im [] tab),
       task = [], approach = [], p_conversationId = None,
       approachRetries = approachRetryLimit im,
       codeGenRetries = codeGenRetryLimit im,
       preloaderFinished = False, p_latestMessage = [], isAuthenticating = False \<rparr>"

subsection \<open>Getters\<close>

definition state :: "Session \<Rightarrow> error + SessionState" where
  "state s =
     (case p_state s of
        None \<Rightarrow> Inl (Error ''State should be initialized before it's read'')
      | Some st \<Rightarrow> Inr st)"

definition uploadId :: "Session \<Rightarrow> error + string" where
  "uploadId s =
     (case state s of
        Inl e \<Rightarrow> Inl e
      | Inr st \<Rightarrow>
          (case st_uploadId st of
             None \<Rightarrow> Inl (Error ''UploadId has to be initialized before it's read'')
           | Some u \<Rightarrow> Inr u))"

definition retries :: "Session \<Rightarrow> error + int" where
  "retries s =
     (case state s of
        Inl e \<Rightarrow> Inl e
      | Inr st \<Rightarrow>
          Inr (if phase st = ''Approach'' then approachRetries s
               else if phase st = ''Codegen'' then codeGenRetries s
               else approachRetries s))"

text \<open>\<^verbatim>\<open>!this._conversationId\<close> holds for \<^verbatim>\<open>undefined\<close> and for the empty string.\<close>

definition conversationId :: "Session \<Rightarrow> error + string" where
  "conversationId s =
     (case p_conversationId s of
        None \<Rightarrow> Inl ConversationIdNotFoundError
      | Some c \<Rightarrow> if c = [] then Inl ConversationIdNotFoundError else Inr c)"

definition latestMessage :: "Session \<Rightarrow> string" where
  "latestMessage s = p_latestMessage s"

subsection \<open>Operations\<close>

text \<open>
  An operation returns what the method returns or throws, the Session as the method
  leaves it (also when it throws), and the events it caused.
\<close>

datatype ret = Unit | Str string | Num int | Reply string | StateObject SessionState

type_synonym outcome = "(error + ret) \<times> Session \<times> event list"

definition decreaseRetries :: "Session \<Rightarrow> outcome" where
  "decreaseRetries s =
     (case state s of
        Inl e \<Rightarrow> (Inl e, s, [])
      | Inr st \<Rightarrow>
          (Inr Unit,
           (if phase st = ''Approach'' then s\<lparr>approachRetries := approachRetries s - 1\<rparr>
            else if phase st = ''Codegen'' then s\<lparr>codeGenRetries := codeGenRetries s - 1\<rparr>
            else s),
           []))"

text \<open>
  \<^verbatim>\<open>setupConversation\<close>: the result of \<^verbatim>\<open>proxyClient.createConversation()\<close> is the
  parameter \<open>created\<close>. Building the state's configuration reads the getter
  \<^verbatim>\<open>conversationId\<close>, which throws when the id just stored is empty.
\<close>

definition setupConversation :: "imported \<Rightarrow> Session \<Rightarrow> string \<Rightarrow> error + string \<Rightarrow> outcome" where
  "setupConversation im s msg created =
     (let s1 = s\<lparr>p_latestMessage := msg\<rparr> in
      case created of
        Inl e \<Rightarrow> (Inl e, s1, [])
      | Inr cid \<Rightarrow>
          (let s2 = s1\<lparr>p_conversationId := Some cid\<rparr> in
           case conversationId s2 of
             Inl e \<Rightarrow> (Inl e, s2, [])
           | Inr c \<Rightarrow>
               (let st = new_PrepareRefinementState im c [] (tabID s2) in
                (Inr Unit, s2\<lparr>p_state := Some st\<rparr>, [StateAssigned st]))))"

definition preloader :: "imported \<Rightarrow> Session \<Rightarrow> string \<Rightarrow> error + string \<Rightarrow> outcome" where
  "preloader im s msg created =
     (if \<not> preloaderFinished s then
        (case setupConversation im s msg created of
           (Inl e, s1, ev) \<Rightarrow> (Inl e, s1, ev)
         | (Inr r, s1, ev) \<Rightarrow>
             (let s2 = s1\<lparr>preloaderFinished := True\<rparr> in
              case conversationId s2 of
                Inl e \<Rightarrow> (Inl e, s2, ev)
              | Inr c \<Rightarrow>
                  (Inr Unit, s2, ev @ [StartChatEmitted c, AsyncEventProgressSent (tabID s2) True])))
      else (Inr Unit, s, []))"

text \<open>
  \<^verbatim>\<open>initCodegen\<close> evaluates the constructor's arguments first: the configuration
  (which reads \<^verbatim>\<open>conversationId\<close>), then \<^verbatim>\<open>uploadId\<close>; either getter may throw, and
  then nothing is assigned.
\<close>

definition initCodegen :: "imported \<Rightarrow> Session \<Rightarrow> outcome" where
  "initCodegen im s =
     (case conversationId s of
        Inl e \<Rightarrow> (Inl e, s, [])
      | Inr c \<Rightarrow>
          (case uploadId s of
             Inl e \<Rightarrow> (Inl e, s, [])
           | Inr u \<Rightarrow>
               (let st = new_PrepareCodeGenState im c u (approach s) [] [] [] (tabID s) 0 in
                (Inr Unit, s\<lparr>p_state := Some st, p_latestMessage := []\<rparr>,
                 [StateAssigned st, ApproachAcceptedEmitted c True]))))"

text \<open>
  What a state's \<^verbatim>\<open>interact\<close> is given, and what it answers. The method belongs to the
  state classes; besides its answer it may change the \<^verbatim>\<open>approach\<close> of the state it runs
  on (\<open>approachAfter\<close>).
\<close>

record SessionStateAction =
  files :: "string list"
  action_task :: string
  action_msg :: string

record SessionStateInteraction =
  approachAfter :: string
  interaction :: string
  nextState :: "SessionState option"

record services =
  collectFiles :: "string \<Rightarrow> error + string list"
  interact :: "SessionState \<Rightarrow> SessionStateAction \<Rightarrow> error + SessionStateInteraction"

definition nextInteraction :: "services \<Rightarrow> Session \<Rightarrow> string \<Rightarrow> outcome" where
  "nextInteraction sv s msg =
     (case collectFiles sv (sourceRoot (config s)) of
        Inl e \<Rightarrow> (Inl e, s, [])
      | Inr fs \<Rightarrow>
          (case state s of
             Inl e \<Rightarrow> (Inl e, s, [])
           | Inr st \<Rightarrow>
               (case interact sv st \<lparr> files = fs, action_task = task s, action_msg = msg \<rparr> of
                  Inl e \<Rightarrow> (Inl e, s, [])
                | Inr resp \<Rightarrow>
                    (let cur = st\<lparr>st_approach := approachAfter resp\<rparr> in
                     case nextState resp of
                       None \<Rightarrow> (Inr (Reply (interaction resp)), s\<lparr>p_state := Some cur\<rparr>, [])
                     | Some nxt \<Rightarrow>
                         (let newApproach = st_approach cur;
                              old = cur\<lparr>tokenSource := True\<rparr>;
                              new = nxt\<lparr>st_approach := newApproach\<rparr>
                          in (Inr (Reply (interaction resp)),
                              s\<lparr>p_state := Some new, approach := newApproach\<rparr>,
                              [TokenCancelled old, StateAssigned nxt]))))))"

definition send :: "services \<Rightarrow> Session \<Rightarrow> string \<Rightarrow> outcome" where
  "send sv s msg =
     (let s1 = (if task s = [] \<and> msg \<noteq> [] then s\<lparr>task := msg\<rparr> else s);
          s2 = s1\<lparr>p_latestMessage := msg\<rparr>
      in nextInteraction sv s2 msg)"

text \<open>
  \<^verbatim>\<open>acceptChanges\<close> assigns no field of the Session. Its file-system calls are recorded
  as events, keyed by the upload id and the path as the state lists it.
\<close>

definition acceptChanges :: "Session \<Rightarrow> outcome" where
  "acceptChanges s =
     (case uploadId s of
        Inl e \<Rightarrow> (Inl e, s, [])
      | Inr u \<Rightarrow>
          (case state s of
             Inl e \<Rightarrow> (Inl e, s, [])
           | Inr st \<Rightarrow>
               (Inr Unit, s,
                map (FileWritten u) (case filePaths st of None \<Rightarrow> [] | Some ps \<Rightarrow> ps)
                @ map FileDeleted (case deletedFiles st of None \<Rightarrow> [] | Some ps \<Rightarrow> ps)
                @ map ReferenceLogAdded (case references st of None \<Rightarrow> [] | Some rs \<Rightarrow> rs))))"

subsection \<open>Runs of operations\<close>

text \<open>
  Every public member of the class as one operation; the results of the service calls an
  operation makes travel with it. A getter leaves the Session as it is.
\<close>

datatype operation =
    Preloader string "error + string"
  | InitCodegen
  | Send string services
  | AcceptChanges
  | DecreaseRetries
  | GetState
  | GetUploadId
  | GetRetries
  | GetConversationId
  | GetLatestMessage

definition of_getter :: "('a \<Rightarrow> ret) \<Rightarrow> error + 'a \<Rightarrow> Session \<Rightarrow> outcome" where
  "of_getter f r s = (case r of Inl e \<Rightarrow> (Inl e, s, []) | Inr v \<Rightarrow> (Inr (f v), s, []))"

fun exec :: "imported \<Rightarrow> Session \<Rightarrow> operation \<Rightarrow> outcome" where
  "exec im s (Preloader msg created) = preloader im s msg created"
| "exec im s InitCodegen = initCodegen im s"
| "exec im s (Send msg sv) = send sv s msg"
| "exec im s AcceptChanges = acceptChanges s"
| "exec im s DecreaseRetries = decreaseRetries s"
| "exec im s GetState = of_getter StateObject (state s) s"
| "exec im s GetUploadId = of_getter Str (uploadId s) s"
| "exec im s GetRetries = of_getter Num (retries s) s"
| "exec im s GetConversationId = of_getter Str (conversationId s) s"
| "exec im s GetLatestMessage = (Inr (Str (latestMessage s)), s, [])"

definition after :: "imported \<Rightarrow> Session \<Rightarrow> operation \<Rightarrow> Session" where
  "after im s op = fst (snd (exec im s op))"

fun run :: "imported \<Rightarrow> Session \<Rightarrow> operation list \<Rightarrow> Session" where
  "run im s [] = s"
| "run im s (op # ops) = run im (after im s op) ops"


text \<open>The messages of the \<^verbatim>\<open>send\<close> calls of a run, in order.\<close>

fun sent :: "operation list \<Rightarrow> string list" where
  "sent [] = []"
| "sent (Send msg sv # ops) = msg # sent ops"
| "sent (op # ops) = sent ops"

text \<open>
  How often a run calls \<^verbatim>\<open>decreaseRetries\<close> while the current state is in phase \<open>ph\<close>.
\<close>

fun spent :: "string \<Rightarrow> imported \<Rightarrow> Session \<Rightarrow> operation list \<Rightarrow> int" where
  "spent ph im s [] = 0"
| "spent ph im s (DecreaseRetries # ops) =
     (case state s of Inl e \<Rightarrow> 0 | Inr st \<Rightarrow> if phase st = ph then 1 else 0)
     + spent ph im (after im s DecreaseRetries) ops"
| "spent ph im s (op # ops) = spent ph im (after im s op) ops"

subsection \<open>The order of the named states\<close>







text \<open>
  \<^verbatim>\<open>setupConversation\<close> completes in an operation when the preloader runs it and it
  returns rather than throws.
\<close>

fun completes :: "imported \<Rightarrow> Session \<Rightarrow> operation \<Rightarrow> bool" where
  "completes im s (Preloader msg created) =
     (\<not> preloaderFinished s \<and> isl (fst (setupConversation im s msg created)) = False)"
| "completes im s op = False"

fun neverSetUp :: "imported \<Rightarrow> Session \<Rightarrow> operation list \<Rightarrow> bool" where
  "neverSetUp im s [] = True"
| "neverSetUp im s (op # ops) = (\<not> completes im s op \<and> neverSetUp im (after im s op) ops)"

section \<open>Login and the client injector (src/caws/commands.ts)\<close>

text \<open>
  The authentication provider, the login wizard, the client and the logger are other
  modules. What they answer is a parameter of the model; calls that act on them are
  recorded as effects. The awaited calls \<^verbatim>\<open>clientFactory()\<close> and \<^verbatim>\<open>wizard.run()\<close> are
  taken to resolve. Everything inside the \<^verbatim>\<open>try\<close> block of login may throw: reading
  \<^verbatim>\<open>response.session\<close> and \<^verbatim>\<open>accountDetails.metadata\<close> when the object read from is
  \<^verbatim>\<open>undefined\<close>, the awaited \<^verbatim>\<open>setCredentials\<close>, and the call of \<^verbatim>\<open>deleteSession\<close>
  (which is not awaited, so only a throw of the call itself reaches the \<^verbatim>\<open>catch\<close>).
\<close>

datatype LoginResult = Succeeded | Cancelled | Failed

record AccountDetails =
  label :: string
  metadata :: string

text \<open>\<open>None\<close> in these two records is a property that is \<^verbatim>\<open>undefined\<close>.\<close>

record AuthSession =
  session_id :: string
  accessDetails :: string
  accountDetails :: "AccountDetails option"

record LoginResponse =
  session :: "AuthSession option"

text \<open>
  The client as the commands see it: whether it is connected, and the credentials it
  was last given.
\<close>

record CawsClient =
  connected :: bool
  credentials :: "(string \<times> string) option"

datatype effect =
    WizardRun
  | SetCredentialsCalled string string
  | SessionDeleted AuthSession
  | ErrorLogged string error
  | ErrorMessageShown string
  | CommandInvoked CawsClient

text \<open>
  \<open>getActiveSession\<close> is what \<^verbatim>\<open>authProvider.getActiveSession()\<close> answers when login
  starts, \<open>wizard\<close> what \<^verbatim>\<open>wizard.run()\<close> resolves to (\<open>None\<close> for \<^verbatim>\<open>undefined\<close>),
  \<open>setCredentials\<close> the client's method (the client it leaves, or what it throws),
  \<open>deleteSession\<close> what the call \<^verbatim>\<open>authProvider.deleteSession(s)\<close> throws (\<open>None\<close> when
  it returns), and \<open>clientFactory\<close> the client the factory resolves to. The effect
  \<open>SessionDeleted s\<close> is a call of \<^verbatim>\<open>deleteSession\<close> that returned.
\<close>

record environment =
  getActiveSession :: "AuthSession option"
  wizard :: "LoginResponse option"
  setCredentials :: "CawsClient \<Rightarrow> string \<Rightarrow> string \<Rightarrow> error + CawsClient"
  deleteSession :: "AuthSession \<Rightarrow> error option"
  clientFactory :: CawsClient

text \<open>The message login logs with the error it caught.\<close>

definition loginFailure :: "error \<Rightarrow> effect" where
  "loginFailure err = ErrorLogged ''CAWS: failed to login: %O'' err"

definition login :: "environment \<Rightarrow> CawsClient \<Rightarrow> LoginResult \<times> CawsClient \<times> effect list" where
  "login env client =
     (let lastSession = getActiveSession env;
          response = wizard env
      in case response of
           None \<Rightarrow> (Cancelled, client, [WizardRun])
         | Some resp \<Rightarrow>
            (case session resp of
               None \<Rightarrow> (Failed, client, [WizardRun, loginFailure (TypeError ''session'')])
             | Some sess \<Rightarrow>
                (case accountDetails sess of
                   None \<Rightarrow>
                     (Failed, client, [WizardRun, loginFailure (TypeError ''accountDetails'')])
                 | Some account \<Rightarrow>
                    (let access = accessDetails sess;
                         meta = metadata account
                     in case setCredentials env client access meta of
                          Inl err \<Rightarrow>
                            (Failed, client,
                             [WizardRun, SetCredentialsCalled access meta, loginFailure err])
                        | Inr client' \<Rightarrow>
                           (case lastSession of
                              None \<Rightarrow>
                                (Succeeded, client', [WizardRun, SetCredentialsCalled access meta])
                            | Some prev \<Rightarrow>
                                if session_id sess \<noteq> session_id prev then
                                  (case deleteSession env prev of
                                     Some err \<Rightarrow>
                                       (Failed, client',
                                        [WizardRun, SetCredentialsCalled access meta,
                                         loginFailure err])
                                   | None \<Rightarrow>
                                       (Succeeded, client',
                                        [WizardRun, SetCredentialsCalled access meta,
                                         SessionDeleted prev]))
                                else
                                  (Succeeded, client',
                                   [WizardRun, SetCredentialsCalled access meta]))))))"


text \<open>
  The function \<^verbatim>\<open>createClientInjector\<close> returns; \<open>None\<close> is the \<^verbatim>\<open>undefined\<close> of a
  bare \<^verbatim>\<open>return\<close>.
\<close>

definition createClientInjector ::
  "environment \<Rightarrow> (CawsClient \<Rightarrow> 'a \<Rightarrow> 'u) \<Rightarrow> 'a \<Rightarrow> 'u option \<times> effect list" where
  "createClientInjector env command args =
     (let client = clientFactory env in
      if \<not> connected client then
        (case login env client of
           (result, client', effs) \<Rightarrow>
             if result = Succeeded \<and> connected client'
             then (Some (command client' args), effs @ [CommandInvoked client'])
             else (None,
                   effs @ (if result = Failed
                           then [ErrorMessageShown ''AWS: Not connected to CODE.AWS'']
                           else [])))
      else (Some (command client args), [CommandInvoked client]))"

text \<open>The class \<^verbatim>\<open>CawsCommands\<close> builds its \<^verbatim>\<open>withClient\<close> with the injector.\<close>

definition withClient ::
  "environment \<Rightarrow> (CawsClient \<Rightarrow> 'a \<Rightarrow> 'u) \<Rightarrow> 'a \<Rightarrow> 'u option \<times> effect list" where
  "withClient env = createClientInjector env"

section \<open>The log stream document provider (src/cloudWatchLogs/document/logStreamDocumentProvider.ts)\<close>

record Uri =
  scheme :: string
  path :: string
  query :: string

record formatting =
  timestamps :: bool

text \<open>The registry's lookup; \<open>None\<close> is \<^verbatim>\<open>undefined\<close>.\<close>

record LogStreamRegistry =
  getLogContent :: "Uri \<Rightarrow> formatting \<Rightarrow> string option"

datatype logged = NoContentFound Uri

text \<open>\<^verbatim>\<open>!content\<close> holds for \<^verbatim>\<open>undefined\<close> and for the empty string.\<close>

definition provideTextDocumentContent :: "LogStreamRegistry \<Rightarrow> Uri \<Rightarrow> string \<times> logged list" where
  "provideTextDocumentContent registry uri =
     (let content = getLogContent registry uri \<lparr> timestamps = True \<rparr> in
      (case content of None \<Rightarrow> [] | Some c \<Rightarrow> c,
       if content = None \<or> content = Some [] then [NoContentFound uri] else []))"

section \<open>Sample inputs\<close>

text \<open>Concrete values at which the theorems below are exercised.\<close>

definition sample_imported :: imported where
  "sample_imported =
     \<lparr> approachRetryLimit = 3, codeGenRetryLimit = 3,
       phaseOf = (\<lambda>c. case c of ConversationNotStartedState \<Rightarrow> ''Init''
                          | PrepareRefinementState \<Rightarrow> ''Approach''
                          | PrepareCodeGenState \<Rightarrow> ''Codegen'') \<rparr>"

definition sample_config :: SessionConfig where
  "sample_config = \<lparr> sourceRoot = ''/repo/src'', workspaceRoot = ''/repo'' \<rparr>"

definition sample_session :: Session where
  "sample_session = Session_new sample_imported sample_config ''tab-1''"

definition sample_state :: "string \<Rightarrow> SessionState" where
  "sample_state ph =
     \<lparr> cls = PrepareRefinementState, phase = ph, st_approach = ''plan'', st_tabID = ''tab-1'',
       tokenSource = False, st_conversationId = Some ''conv-1'', st_uploadId = Some ''up-1'',
       filePaths = None, deletedFiles = None, references = None, currentIteration = None \<rparr>"

definition sample_in_phase :: "string \<Rightarrow> Session" where
  "sample_in_phase ph = sample_session\<lparr>p_state := Some (sample_state ph)\<rparr>"

definition sample_next :: SessionState where
  "sample_next = new_PrepareCodeGenState sample_imported ''conv-1'' ''up-1'' ''plan'' [] [] [] ''tab-1'' 0"

definition sample_services :: services where
  "sample_services =
     \<lparr> collectFiles = (\<lambda>root. Inr [''a.ts'']),
       interact = (\<lambda>st a. Inr \<lparr> approachAfter = ''plan v2'', interaction = ''done'',
                                nextState = Some sample_next \<rparr>) \<rparr>"


definition quiet_services :: services where
  "quiet_services =
     \<lparr> collectFiles = (\<lambda>root. Inr [''a.ts'']),
       interact = (\<lambda>st a. Inr \<lparr> approachAfter = st_approach st, interaction = ''more?'',
                                nextState = None \<rparr>) \<rparr>"




definition sample_account :: "string \<Rightarrow> AuthSession" where
  "sample_account i =
     \<lparr> session_id = i, accessDetails = ''token-'' @ i,
       accountDetails = Some \<lparr> label = ''user'', metadata = ''meta'' \<rparr> \<rparr>"

definition sample_offline :: CawsClient where
  "sample_offline = \<lparr> connected = False, credentials = None \<rparr>"

definition sample_online :: CawsClient where
  "sample_online = \<lparr> connected = True, credentials = Some (''token-2'', ''meta'') \<rparr>"

text \<open>A client that accepts any credentials, and one that refuses them.\<close>

definition sample_accepting :: "CawsClient \<Rightarrow> string \<Rightarrow> string \<Rightarrow> error + CawsClient" where
  "sample_accepting c access meta = Inr (c\<lparr>connected := True, credentials := Some (access, meta)\<rparr>)"

definition sample_refusing :: "CawsClient \<Rightarrow> string \<Rightarrow> string \<Rightarrow> error + CawsClient" where
  "sample_refusing c access meta = Inl (Rejected ''403'')"

definition sample_environment :: environment where
  "sample_environment =
     \<lparr> getActiveSession = Some (sample_account ''1''),
       wizard = Some \<lparr> session = Some (sample_account ''2'') \<rparr>,
       setCredentials = sample_accepting,
       deleteSession = (\<lambda>s. None),
       clientFactory = sample_offline \<rparr>"


definition sample_command :: "CawsClient \<Rightarrow> string \<Rightarrow> string" where
  "sample_command c url = ''cloned '' @ url"

definition sample_uri :: Uri where
  "sample_uri = \<lparr> scheme = ''awsCloudWatchLogs'', path = ''group:region'', query = ''{}'' \<rparr>"

definition sample_registry :: LogStreamRegistry where
  "sample_registry =
     \<lparr> getLogContent = (\<lambda>u f. if u = sample_uri
                              then Some (if timestamps f then ''12:00 started'' else ''started'')
                              else None) \<rparr>"

section \<open>Retry counters\<close>

lemma state_sample_in_phase: "state (sample_in_phase ph) = Inr (sample_state ph)"
  by (simp add: state_def sample_in_phase_def)

text \<open>
  C3. The retry counters are kept per phase. On a Session whose current state is \<open>st\<close>:
  in phase 'Approach' \<^verbatim>\<open>decreaseRetries\<close> takes one from \<open>approachRetries\<close> and leaves
  \<open>codeGenRetries\<close> (and every other field) as it was; in phase 'Codegen' it takes one
  from \<open>codeGenRetries\<close> and leaves \<open>approachRetries\<close>; in any other phase it changes
  nothing. The getter \<^verbatim>\<open>retries\<close> answers \<open>codeGenRetries\<close> in phase 'Codegen' and
  \<open>approachRetries\<close> in every other phase.
\<close>

theorem decreaseRetries_per_phase:
  assumes "state s = Inr st"
  shows "(phase st = ''Approach'' \<longrightarrow>
            decreaseRetries s = (Inr Unit, s\<lparr>approachRetries := approachRetries s - 1\<rparr>, []) \<and>
            approachRetries (after im s DecreaseRetries) = approachRetries s - 1 \<and>
            codeGenRetries (after im s DecreaseRetries) = codeGenRetries s \<and>
            retries s = Inr (approachRetries s))
       \<and> (phase st = ''Codegen'' \<longrightarrow>
            decreaseRetries s = (Inr Unit, s\<lparr>codeGenRetries := codeGenRetries s - 1\<rparr>, []) \<and>
            codeGenRetries (after im s DecreaseRetries) = codeGenRetries s - 1 \<and>
            approachRetries (after im s DecreaseRetries) = approachRetries s \<and>
            retries s = Inr (codeGenRetries s))
       \<and> (phase st \<noteq> ''Approach'' \<and> phase st \<noteq> ''Codegen'' \<longrightarrow>
            decreaseRetries s = (Inr Unit, s, []) \<and>
            after im s DecreaseRetries = s \<and>
            retries s = Inr (approachRetries s))"
  using assms by (simp add: after_def decreaseRetries_def retries_def)

theorem decreaseRetries_per_phase_witness:
  "state (sample_in_phase ''Approach'') = Inr (sample_state ''Approach'')
   \<and> approachRetries (after sample_imported (sample_in_phase ''Approach'') DecreaseRetries) = 2
   \<and> codeGenRetries (after sample_imported (sample_in_phase ''Approach'') DecreaseRetries) = 3
   \<and> retries (sample_in_phase ''Approach'') = Inr 3
   \<and> state (sample_in_phase ''Codegen'') = Inr (sample_state ''Codegen'')
   \<and> codeGenRetries (after sample_imported (sample_in_phase ''Codegen'') DecreaseRetries) = 2
   \<and> approachRetries (after sample_imported (sample_in_phase ''Codegen'') DecreaseRetries) = 3
   \<and> state (sample_in_phase ''Init'') = Inr (sample_state ''Init'')
   \<and> after sample_imported (sample_in_phase ''Init'') DecreaseRetries = sample_in_phase ''Init''"
  using decreaseRetries_per_phase [OF state_sample_in_phase, of "''Approach''" sample_imported]
        decreaseRetries_per_phase [OF state_sample_in_phase, of "''Codegen''" sample_imported]
        decreaseRetries_per_phase [OF state_sample_in_phase, of "''Init''" sample_imported]
  by (simp add: state_def sample_state_def sample_in_phase_def sample_session_def
        Session_new_def sample_imported_def)

section \<open>What each operation leaves alone\<close>

lemma nextInteraction_frame:
  "approachRetries (fst (snd (nextInteraction sv s msg))) = approachRetries s
   \<and> codeGenRetries (fst (snd (nextInteraction sv s msg))) = codeGenRetries s
   \<and> task (fst (snd (nextInteraction sv s msg))) = task s
   \<and> p_latestMessage (fst (snd (nextInteraction sv s msg))) = p_latestMessage s
   \<and> preloaderFinished (fst (snd (nextInteraction sv s msg))) = preloaderFinished s
   \<and> p_conversationId (fst (snd (nextInteraction sv s msg))) = p_conversationId s"
  by (simp add: nextInteraction_def Let_def split: sum.splits option.splits)

lemma send_frame:
  "approachRetries (fst (snd (send sv s msg))) = approachRetries s
   \<and> codeGenRetries (fst (snd (send sv s msg))) = codeGenRetries s
   \<and> task (fst (snd (send sv s msg))) = (if task s = [] \<and> msg \<noteq> [] then msg else task s)
   \<and> p_latestMessage (fst (snd (send sv s msg))) = msg
   \<and> preloaderFinished (fst (snd (send sv s msg))) = preloaderFinished s
   \<and> p_conversationId (fst (snd (send sv s msg))) = p_conversationId s"
  by (simp add: send_def Let_def nextInteraction_frame)

lemma setupConversation_frame:
  "approachRetries (fst (snd (setupConversation im s msg created))) = approachRetries s
   \<and> codeGenRetries (fst (snd (setupConversation im s msg created))) = codeGenRetries s
   \<and> task (fst (snd (setupConversation im s msg created))) = task s
   \<and> preloaderFinished (fst (snd (setupConversation im s msg created))) = preloaderFinished s"
  by (simp add: setupConversation_def Let_def split: sum.splits)

lemma preloader_frame:
  "approachRetries (fst (snd (preloader im s msg created))) = approachRetries s
   \<and> codeGenRetries (fst (snd (preloader im s msg created))) = codeGenRetries s
   \<and> task (fst (snd (preloader im s msg created))) = task s"
  using setupConversation_frame [of im s msg created]
  by (auto simp: preloader_def Let_def split: sum.splits prod.splits)

lemma initCodegen_frame:
  "approachRetries (fst (snd (initCodegen im s))) = approachRetries s
   \<and> codeGenRetries (fst (snd (initCodegen im s))) = codeGenRetries s
   \<and> task (fst (snd (initCodegen im s))) = task s
   \<and> preloaderFinished (fst (snd (initCodegen im s))) = preloaderFinished s
   \<and> p_conversationId (fst (snd (initCodegen im s))) = p_conversationId s"
  by (simp add: initCodegen_def Let_def split: sum.splits)

lemma acceptChanges_same: "fst (snd (acceptChanges s)) = s"
  by (simp add: acceptChanges_def split: sum.splits)

lemma of_getter_same: "fst (snd (of_getter f r s)) = s"
  by (simp add: of_getter_def split: sum.splits)

lemma decreaseRetries_frame:
  "task (fst (snd (decreaseRetries s))) = task s
   \<and> p_state (fst (snd (decreaseRetries s))) = p_state s
   \<and> preloaderFinished (fst (snd (decreaseRetries s))) = preloaderFinished s
   \<and> p_conversationId (fst (snd (decreaseRetries s))) = p_conversationId s
   \<and> p_latestMessage (fst (snd (decreaseRetries s))) = p_latestMessage s"
  by (simp add: decreaseRetries_def split: sum.splits)

lemma counters_kept:
  "op \<noteq> DecreaseRetries \<Longrightarrow>
     approachRetries (after im s op) = approachRetries s \<and>
     codeGenRetries (after im s op) = codeGenRetries s"
  by (cases op)
     (simp_all add: after_def send_frame preloader_frame initCodegen_frame
        acceptChanges_same of_getter_same)

lemma counters_decreased:
  "(approachRetries (after im s DecreaseRetries) = approachRetries s - 1 \<and>
      codeGenRetries (after im s DecreaseRetries) = codeGenRetries s)
   \<or> (approachRetries (after im s DecreaseRetries) = approachRetries s \<and>
      codeGenRetries (after im s DecreaseRetries) = codeGenRetries s - 1)
   \<or> after im s DecreaseRetries = s"
  by (simp add: after_def decreaseRetries_def split: sum.splits)

lemma counters_step:
  "approachRetries (after im s op) \<le> approachRetries s \<and>
   codeGenRetries (after im s op) \<le> codeGenRetries s"
proof (cases "op = DecreaseRetries")
  case True
  then show ?thesis using counters_decreased [of im s] by auto
next
  case False
  then show ?thesis by (simp add: counters_kept)
qed

lemma counters_run:
  "approachRetries (run im s ops) \<le> approachRetries s \<and>
   codeGenRetries (run im s ops) \<le> codeGenRetries s"
proof (induction ops arbitrary: s)
  case Nil
  show ?case by simp
next
  case (Cons op ops)
  from Cons.IH [of "after im s op"] counters_step [of im s op]
  show ?case by auto
qed

lemma counters_by_phase:
  assumes "state s = Inr st"
  shows "(phase st = ''Approach'' \<longrightarrow>
            approachRetries (after im s DecreaseRetries) = approachRetries s - 1 \<and>
            codeGenRetries (after im s DecreaseRetries) = codeGenRetries s)
       \<and> (phase st = ''Codegen'' \<longrightarrow>
            codeGenRetries (after im s DecreaseRetries) = codeGenRetries s - 1 \<and>
            approachRetries (after im s DecreaseRetries) = approachRetries s)
       \<and> (phase st \<noteq> ''Approach'' \<and> phase st \<noteq> ''Codegen'' \<longrightarrow>
            after im s DecreaseRetries = s)"
  using assms by (simp add: after_def decreaseRetries_def)

lemma counters_without_state:
  "isl (state s) \<Longrightarrow> after im s DecreaseRetries = s"
  by (auto simp: after_def decreaseRetries_def split: sum.splits)

lemma counters_spent:
  "approachRetries (run im s ops) = approachRetries s - spent ''Approach'' im s ops
   \<and> codeGenRetries (run im s ops) = codeGenRetries s - spent ''Codegen'' im s ops"
proof (induction ops arbitrary: s)
  case Nil
  show ?case by simp
next
  case (Cons op ops)
  show ?case
  proof (cases "op = DecreaseRetries")
    case True
    show ?thesis
    proof (cases "state s")
      case (Inl e)
      then have "after im s DecreaseRetries = s"
        using counters_without_state [of s im] by simp
      then show ?thesis using True Inl Cons.IH [of s] by simp
    next
      case (Inr st)
      from counters_by_phase [OF Inr, of im] Cons.IH [of "after im s DecreaseRetries"]
      show ?thesis using True Inr by (cases "phase st = ''Approach''"; cases "phase st = ''Codegen''") auto
    qed
  next
    case False
    then have "spent ph im s (op # ops) = spent ph im (after im s op) ops" for ph
      by (cases op) simp_all
    then show ?thesis using counters_kept [OF False, of im s] Cons.IH [of "after im s op"]
      by simp
  qed
qed

lemma spent_nonnegative: "0 \<le> spent ph im s ops"
  by (induction ph im s ops rule: spent.induct) (auto split: sum.splits)

text \<open>
  C2. The retry budget of the chat flow is fixed. A freshly constructed Session has
  \<open>approachRetries\<close> equal to \<open>approachRetryLimit\<close> and \<open>codeGenRetries\<close> equal to
  \<open>codeGenRetryLimit\<close>. No operation other than \<^verbatim>\<open>decreaseRetries\<close> changes either
  counter. \<^verbatim>\<open>decreaseRetries\<close> subtracts exactly one: from \<open>approachRetries\<close> when the
  current state is in phase 'Approach', from \<open>codeGenRetries\<close> when it is in phase
  'Codegen', each time leaving the other counter as it was; in any other phase, or
  without a state, it leaves the Session as it is. So after every run from a fresh
  Session each counter is its limit less the number of \<^verbatim>\<open>decreaseRetries\<close> calls made
  in its phase: no step increases a counter, and both stay at or below their limits.
\<close>

theorem retry_budget_fixed:
  "approachRetries (Session_new im cfg tab) = approachRetryLimit im
   \<and> codeGenRetries (Session_new im cfg tab) = codeGenRetryLimit im
   \<and> (\<forall>s op. op \<noteq> DecreaseRetries \<longrightarrow>
         approachRetries (after im s op) = approachRetries s \<and>
         codeGenRetries (after im s op) = codeGenRetries s)
   \<and> (\<forall>s st. state s = Inr st \<longrightarrow>
         (phase st = ''Approach'' \<longrightarrow>
            approachRetries (after im s DecreaseRetries) = approachRetries s - 1 \<and>
            codeGenRetries (after im s DecreaseRetries) = codeGenRetries s)
       \<and> (phase st = ''Codegen'' \<longrightarrow>
            codeGenRetries (after im s DecreaseRetries) = codeGenRetries s - 1 \<and>
            approachRetries (after im s DecreaseRetries) = approachRetries s)
       \<and> (phase st \<noteq> ''Approach'' \<and> phase st \<noteq> ''Codegen'' \<longrightarrow>
            after im s DecreaseRetries = s))
   \<and> (\<forall>s. isl (state s) \<longrightarrow> after im s DecreaseRetries = s)
   \<and> (\<forall>ops. approachRetries (run im (Session_new im cfg tab) ops)
               = approachRetryLimit im - spent ''Approach'' im (Session_new im cfg tab) ops
           \<and> codeGenRetries (run im (Session_new im cfg tab) ops)
               = codeGenRetryLimit im - spent ''Codegen'' im (Session_new im cfg tab) ops)
   \<and> (\<forall>ops op. approachRetries (run im (Session_new im cfg tab) (ops @ [op]))
                  \<le> approachRetries (run im (Session_new im cfg tab) ops)
              \<and> codeGenRetries (run im (Session_new im cfg tab) (ops @ [op]))
                  \<le> codeGenRetries (run im (Session_new im cfg tab) ops))
   \<and> (\<forall>ops. approachRetries (run im (Session_new im cfg tab) ops) \<le> approachRetryLimit im
           \<and> codeGenRetries (run im (Session_new im cfg tab) ops) \<le> codeGenRetryLimit im)"
proof -
  let ?s0 = "Session_new im cfg tab"
  have fresh: "approachRetries ?s0 = approachRetryLimit im \<and> codeGenRetries ?s0 = codeGenRetryLimit im"
    by (simp add: Session_new_def)
  have kept: "op \<noteq> DecreaseRetries \<longrightarrow>
         approachRetries (after im s op) = approachRetries s \<and>
         codeGenRetries (after im s op) = codeGenRetries s" for s op
    using counters_kept by blast
  have phased: "state s = Inr st \<longrightarrow>
         (phase st = ''Approach'' \<longrightarrow>
            approachRetries (after im s DecreaseRetries) = approachRetries s - 1 \<and>
            codeGenRetries (after im s DecreaseRetries) = codeGenRetries s)
       \<and> (phase st = ''Codegen'' \<longrightarrow>
            codeGenRetries (after im s DecreaseRetries) = codeGenRetries s - 1 \<and>
            approachRetries (after im s DecreaseRetries) = approachRetries s)
       \<and> (phase st \<noteq> ''Approach'' \<and> phase st \<noteq> ''Codegen'' \<longrightarrow>
            after im s DecreaseRetries = s)" for s st
    using counters_by_phase [of s st im] by blast
  have stateless: "isl (state s) \<longrightarrow> after im s DecreaseRetries = s" for s
    using counters_without_state by blast
  have exact: "approachRetries (run im ?s0 ops) = approachRetryLimit im - spent ''Approach'' im ?s0 ops
           \<and> codeGenRetries (run im ?s0 ops) = codeGenRetryLimit im - spent ''Codegen'' im ?s0 ops"
    for ops
    using counters_spent [of im ?s0 ops] fresh by simp
  have snoc: "run im s (ops @ [op]) = after im (run im s ops) op" for s ops op
    by (induction ops arbitrary: s) simp_all
  have step: "approachRetries (run im ?s0 (ops @ [op])) \<le> approachRetries (run im ?s0 ops)
              \<and> codeGenRetries (run im ?s0 (ops @ [op])) \<le> codeGenRetries (run im ?s0 ops)" for ops op
    unfolding snoc by (rule counters_step)
  have bound: "approachRetries (run im ?s0 ops) \<le> approachRetryLimit im
               \<and> codeGenRetries (run im ?s0 ops) \<le> codeGenRetryLimit im" for ops
    using counters_run [of im ?s0 ops] fresh by simp
  show ?thesis
    using fresh kept phased stateless exact step bound
    by (intro conjI allI) blast+
qed

lemma sample_spent:
  "spent ''Approach'' sample_imported sample_session
     [Preloader ''hello'' (Inr ''conv-1''), DecreaseRetries, DecreaseRetries] = 2"
  "spent ''Codegen'' sample_imported sample_session
     [Preloader ''hello'' (Inr ''conv-1''), DecreaseRetries, DecreaseRetries] = 0"
  by (simp_all add: sample_session_def Session_new_def after_def preloader_def
        setupConversation_def conversationId_def Let_def decreaseRetries_def state_def
        new_PrepareRefinementState_def sample_imported_def)

theorem retry_budget_fixed_witness:
  "approachRetries sample_session = 3 \<and> codeGenRetries sample_session = 3
   \<and> Send ''hello'' sample_services \<noteq> DecreaseRetries
   \<and> approachRetries (after sample_imported (sample_in_phase ''Approach'') (Send ''hello'' sample_services)) = 3
   \<and> codeGenRetries (after sample_imported (sample_in_phase ''Approach'') (Send ''hello'' sample_services)) = 3
   \<and> state (sample_in_phase ''Approach'') = Inr (sample_state ''Approach'')
   \<and> approachRetries (after sample_imported (sample_in_phase ''Approach'') DecreaseRetries) = 2
   \<and> codeGenRetries (after sample_imported (sample_in_phase ''Approach'') DecreaseRetries) = 3
   \<and> state (sample_in_phase ''Codegen'') = Inr (sample_state ''Codegen'')
   \<and> codeGenRetries (after sample_imported (sample_in_phase ''Codegen'') DecreaseRetries) = 2
   \<and> approachRetries (after sample_imported (sample_in_phase ''Codegen'') DecreaseRetries) = 3
   \<and> state (sample_in_phase ''Init'') = Inr (sample_state ''Init'')
   \<and> after sample_imported (sample_in_phase ''Init'') DecreaseRetries = sample_in_phase ''Init''
   \<and> isl (state (sample_session\<lparr>p_state := None\<rparr>))
   \<and> after sample_imported (sample_session\<lparr>p_state := None\<rparr>) DecreaseRetries
        = sample_session\<lparr>p_state := None\<rparr>
   \<and> approachRetries (run sample_imported sample_session
         [Preloader ''hello'' (Inr ''conv-1''), DecreaseRetries, DecreaseRetries]) = 1
   \<and> codeGenRetries (run sample_imported sample_session
         [Preloader ''hello'' (Inr ''conv-1''), DecreaseRetries, DecreaseRetries]) = 3"
proof -
  note r = retry_budget_fixed [of sample_imported sample_config "''tab-1''", folded sample_session_def]
  have lim: "approachRetryLimit sample_imported = 3" "codeGenRetryLimit sample_imported = 3"
    by (simp_all add: sample_imported_def)
  have fresh: "approachRetries sample_session = 3 \<and> codeGenRetries sample_session = 3"
    using r lim by simp
  have ne: "Send ''hello'' sample_services \<noteq> DecreaseRetries"
    by simp
  have same: "approachRetries (sample_in_phase ph) = 3" "codeGenRetries (sample_in_phase ph) = 3" for ph
    using fresh by (simp_all add: sample_in_phase_def)
  note keep = r [THEN conjunct2, THEN conjunct2, THEN conjunct1, rule_format, OF ne]
  have kept: "approachRetries (after sample_imported (sample_in_phase ''Approach'') (Send ''hello'' sample_services)) = 3
              \<and> codeGenRetries (after sample_imported (sample_in_phase ''Approach'') (Send ''hello'' sample_services)) = 3"
    using keep [of "sample_in_phase ''Approach''"] same by simp
  note by_phase = r [THEN conjunct2, THEN conjunct2, THEN conjunct2, THEN conjunct1, rule_format,
                     OF state_sample_in_phase]
  have ph: "phase (sample_state p) = p" for p
    by (simp add: sample_state_def)
  have a: "approachRetries (after sample_imported (sample_in_phase ''Approach'') DecreaseRetries) = 2
           \<and> codeGenRetries (after sample_imported (sample_in_phase ''Approach'') DecreaseRetries) = 3"
    using by_phase [of "''Approach''", THEN conjunct1] ph same by simp
  have c: "codeGenRetries (after sample_imported (sample_in_phase ''Codegen'') DecreaseRetries) = 2
           \<and> approachRetries (after sample_imported (sample_in_phase ''Codegen'') DecreaseRetries) = 3"
    using by_phase [of "''Codegen''", THEN conjunct2, THEN conjunct1] ph same by simp
  have i: "after sample_imported (sample_in_phase ''Init'') DecreaseRetries = sample_in_phase ''Init''"
    using by_phase [of "''Init''", THEN conjunct2, THEN conjunct2] ph by simp
  have nostate: "isl (state (sample_session\<lparr>p_state := None\<rparr>))"
    by (simp add: state_def)
  note n = r [THEN conjunct2, THEN conjunct2, THEN conjunct2, THEN conjunct2, THEN conjunct1,
              rule_format, OF nostate]
  note exact = r [THEN conjunct2, THEN conjunct2, THEN conjunct2, THEN conjunct2, THEN conjunct2,
                  THEN conjunct1, rule_format,
                  of "[Preloader ''hello'' (Inr ''conv-1''), DecreaseRetries, DecreaseRetries]"]
  have run: "approachRetries (run sample_imported sample_session
         [Preloader ''hello'' (Inr ''conv-1''), DecreaseRetries, DecreaseRetries]) = 1
   \<and> codeGenRetries (run sample_imported sample_session
         [Preloader ''hello'' (Inr ''conv-1''), DecreaseRetries, DecreaseRetries]) = 3"
    using exact lim sample_spent by (simp del: run.simps spent.simps)
  from fresh ne kept state_sample_in_phase [of "''Approach''"] a
       state_sample_in_phase [of "''Codegen''"] c state_sample_in_phase [of "''Init''"] i
       nostate n run
  show ?thesis by (intro conjI) simp_all
qed

section \<open>The task and the latest message\<close>

lemma task_step:
  "task (after im s op) =
     (case op of Send msg sv \<Rightarrow> if task s = [] \<and> msg \<noteq> [] then msg else task s | _ \<Rightarrow> task s)"
  by (cases op)
     (simp_all add: after_def send_frame preloader_frame initCodegen_frame
        acceptChanges_same of_getter_same decreaseRetries_frame)

lemma task_run:
  "task (run im s ops) =
     (if task s \<noteq> [] then task s
      else case filter (\<lambda>m. m \<noteq> []) (sent ops) of [] \<Rightarrow> [] | m # ms \<Rightarrow> m)"
proof (induction ops arbitrary: s)
  case Nil
  show ?case by simp
next
  case (Cons op ops)
  show ?case
    by (cases op) (simp_all add: Cons.IH task_step)
qed

text \<open>
  C8. The task of a Session is set at most once. After any run of operations the task
  is the task the Session started with when that was not empty, and otherwise the first
  non-empty message among the \<^verbatim>\<open>send\<close> calls of the run (empty when there is none).
  A \<^verbatim>\<open>send\<close> on a Session whose task is set leaves the task alone, a \<^verbatim>\<open>send\<close> on
  a Session without a task makes its message the task, no other operation touches the
  task, and every \<^verbatim>\<open>send\<close> records its argument as the latest message, whatever
  the interaction that follows it does.
\<close>

theorem task_set_at_most_once:
  "task (run im s ops) =
     (if task s \<noteq> [] then task s
      else case filter (\<lambda>m. m \<noteq> []) (sent ops) of [] \<Rightarrow> [] | m # ms \<Rightarrow> m)
   \<and> (\<forall>msg sv. task s \<noteq> [] \<longrightarrow> task (after im s (Send msg sv)) = task s)
   \<and> (\<forall>msg sv. task s = [] \<longrightarrow> task (after im s (Send msg sv)) = msg)
   \<and> (\<forall>op. (\<forall>msg sv. op \<noteq> Send msg sv) \<longrightarrow> task (after im s op) = task s)
   \<and> (\<forall>msg sv. latestMessage (after im s (Send msg sv)) = msg)"
proof -
  have a: "task s \<noteq> [] \<longrightarrow> task (after im s (Send msg sv)) = task s" for msg sv
    by (simp add: task_step)
  have b: "task s = [] \<longrightarrow> task (after im s (Send msg sv)) = msg" for msg sv
    by (simp add: task_step)
  have c: "(\<forall>msg sv. op \<noteq> Send msg sv) \<longrightarrow> task (after im s op) = task s" for op
    by (cases op) (simp_all add: task_step)
  have d: "latestMessage (after im s (Send msg sv)) = msg" for msg sv
    by (simp add: latestMessage_def after_def send_frame)
  show ?thesis using task_run [of im s ops] a b c d by blast
qed

theorem task_set_at_most_once_witness:
  "task sample_session = []
   \<and> task (run sample_imported sample_session
        [Send [] quiet_services, Send ''add a test'' quiet_services, DecreaseRetries,
         Send ''and docs'' sample_services]) = ''add a test''
   \<and> task (after sample_imported sample_session (Send ''add a test'' quiet_services)) = ''add a test''
   \<and> task (sample_session\<lparr>task := ''first''\<rparr>) \<noteq> []
   \<and> task (after sample_imported (sample_session\<lparr>task := ''first''\<rparr>) (Send ''second'' quiet_services)) = ''first''
   \<and> task (after sample_imported (sample_session\<lparr>task := ''first''\<rparr>) InitCodegen) = ''first''
   \<and> latestMessage (after sample_imported (sample_session\<lparr>task := ''first''\<rparr>) (Send ''second'' quiet_services)) = ''second''"
proof -
  have t0: "task sample_session = []"
    by (simp add: sample_session_def Session_new_def)
  note r = task_set_at_most_once [of sample_imported sample_session
        "[Send [] quiet_services, Send ''add a test'' quiet_services, DecreaseRetries,
          Send ''and docs'' sample_services]"]
  note u = task_set_at_most_once [of sample_imported "sample_session\<lparr>task := ''first''\<rparr>" "[]"]
  have n: "InitCodegen \<noteq> Send msg sv" for msg sv by simp
  have r1: "task (run sample_imported sample_session
        [Send [] quiet_services, Send ''add a test'' quiet_services, DecreaseRetries,
         Send ''and docs'' sample_services]) = ''add a test''"
    using r [THEN conjunct1] t0 by (simp del: run.simps)
  note r3 = r [THEN conjunct2, THEN conjunct2, THEN conjunct1, rule_format, OF t0]
  have t1: "task (sample_session\<lparr>task := ''first''\<rparr>) \<noteq> []" by simp
  note u2 = u [THEN conjunct2, THEN conjunct1, rule_format, OF t1]
  note u4 = u [THEN conjunct2, THEN conjunct2, THEN conjunct2, THEN conjunct1, rule_format, OF n]
  note u5 = u [THEN conjunct2, THEN conjunct2, THEN conjunct2, THEN conjunct2, rule_format]
  from t0 r1 r3 [of "''add a test''" quiet_services] t1 u2 [of "''second''" quiet_services]
       u4 u5 [of "''second''" quiet_services]
  show ?thesis by (intro conjI) simp_all
qed

section \<open>Cancellation\<close>

lemma nextInteraction_step_change:
  assumes "collectFiles sv (sourceRoot (config s)) = Inr fs"
      and "state s = Inr st"
      and "interact sv st \<lparr> files = fs, action_task = task s, action_msg = msg \<rparr> = Inr resp"
      and "nextState resp = Some nxt"
  shows "nextInteraction sv s msg =
           (Inr (Reply (interaction resp)),
            s\<lparr>p_state := Some (nxt\<lparr>st_approach := approachAfter resp\<rparr>),
              approach := approachAfter resp\<rparr>,
            [TokenCancelled (st\<lparr>st_approach := approachAfter resp, tokenSource := True\<rparr>),
             StateAssigned nxt])"
  using assms by (simp add: nextInteraction_def Let_def)

lemma nextInteraction_no_step_change:
  assumes "collectFiles sv (sourceRoot (config s)) = Inr fs"
      and "state s = Inr st"
      and "interact sv st \<lparr> files = fs, action_task = task s, action_msg = msg \<rparr> = Inr resp"
      and "nextState resp = None"
  shows "nextInteraction sv s msg =
           (Inr (Reply (interaction resp)),
            s\<lparr>p_state := Some (st\<lparr>st_approach := approachAfter resp\<rparr>)\<rparr>, [])"
  using assms by (simp add: nextInteraction_def Let_def)

lemma nextInteraction_events:
  "snd (snd (nextInteraction sv s msg)) = [] \<or>
   (\<exists>old nxt. snd (snd (nextInteraction sv s msg)) = [TokenCancelled old, StateAssigned nxt]
       \<and> tokenSource old \<and> map_option cls (p_state s) = Some (cls old))"
  by (auto simp: nextInteraction_def Let_def state_def split: sum.splits option.splits)

lemma preloader_events:
  "TokenCancelled x \<notin> set (snd (snd (preloader im s msg created)))"
  by (auto simp: preloader_def setupConversation_def Let_def split: sum.splits prod.splits if_splits)

lemma initCodegen_events:
  "TokenCancelled x \<notin> set (snd (snd (initCodegen im s)))"
  by (auto simp: initCodegen_def Let_def split: sum.splits)

lemma acceptChanges_events:
  "TokenCancelled x \<notin> set (snd (snd (acceptChanges s)))"
  by (auto simp: acceptChanges_def split: sum.splits option.splits)

lemma of_getter_events: "snd (snd (of_getter f r s)) = []"
  by (simp add: of_getter_def split: sum.splits)

lemma decreaseRetries_events: "snd (snd (decreaseRetries s)) = []"
  by (simp add: decreaseRetries_def split: sum.splits)

lemma cancel_only_in_send:
  assumes "TokenCancelled x \<in> set (snd (snd (exec im s op)))"
  shows "\<exists>msg sv nxt. op = Send msg sv
           \<and> snd (snd (exec im s op)) = [TokenCancelled x, StateAssigned nxt]"
proof (cases op)
  case (Send msg sv)
  let ?s2 = "(if task s = [] \<and> msg \<noteq> [] then s\<lparr>task := msg\<rparr> else s)\<lparr>p_latestMessage := msg\<rparr>"
  have e: "snd (snd (exec im s op)) = snd (snd (nextInteraction sv ?s2 msg))"
    using Send by (simp add: send_def Let_def)
  from nextInteraction_events [of sv ?s2 msg] assms e
  show ?thesis using Send by auto
qed (use assms in \<open>simp_all add: preloader_events initCodegen_events acceptChanges_events
        of_getter_events decreaseRetries_events\<close>)

text \<open>
  C4. Cancellation in the chat flow is discarding the pending request token on a step
  change. Take a call of \<^verbatim>\<open>nextInteraction\<close> in which the files are collected, the
  Session has a state \<open>st\<close> and its \<^verbatim>\<open>interact\<close> answers \<open>resp\<close>. When \<open>resp\<close>
  carries a next state, the call cancels the token of the state it ran on and then
  assigns the next state, in this order and nothing else; the approach read from the
  old state is the approach of the old state, of the new state and of the Session
  afterwards. When \<open>resp\<close> carries no next state, the call cancels nothing and assigns
  nothing: the Session keeps the state object \<^verbatim>\<open>interact\<close> ran on, as \<^verbatim>\<open>interact\<close>
  left it. And no operation of the Session cancels a token in any other way: whenever
  an operation's events hold a cancellation, the operation is a \<^verbatim>\<open>send\<close> and its
  events are that cancellation followed by the assignment of the next state.
\<close>

theorem cancellation_on_step_change:
  assumes "collectFiles sv (sourceRoot (config s)) = Inr fs"
      and "state s = Inr st"
      and "interact sv st \<lparr> files = fs, action_task = task s, action_msg = msg \<rparr> = Inr resp"
  shows "(\<forall>nxt. nextState resp = Some nxt \<longrightarrow>
            snd (snd (nextInteraction sv s msg)) =
              [TokenCancelled (st\<lparr>st_approach := approachAfter resp, tokenSource := True\<rparr>),
               StateAssigned nxt]
            \<and> p_state (fst (snd (nextInteraction sv s msg))) =
                Some (nxt\<lparr>st_approach := approachAfter resp\<rparr>)
            \<and> approach (fst (snd (nextInteraction sv s msg))) = approachAfter resp
            \<and> fst (snd (nextInteraction sv s msg)) =
                s\<lparr>p_state := Some (nxt\<lparr>st_approach := approachAfter resp\<rparr>),
                  approach := approachAfter resp\<rparr>)
       \<and> (nextState resp = None \<longrightarrow>
            snd (snd (nextInteraction sv s msg)) = []
            \<and> fst (snd (nextInteraction sv s msg)) =
                s\<lparr>p_state := Some (st\<lparr>st_approach := approachAfter resp\<rparr>)\<rparr>)
       \<and> (\<forall>im s' op x. TokenCancelled x \<in> set (snd (snd (exec im s' op))) \<longrightarrow>
            (\<exists>m sv' nxt. op = Send m sv'
               \<and> snd (snd (exec im s' op)) = [TokenCancelled x, StateAssigned nxt]))"
proof -
  have a: "nextState resp = Some nxt \<longrightarrow>
            snd (snd (nextInteraction sv s msg)) =
              [TokenCancelled (st\<lparr>st_approach := approachAfter resp, tokenSource := True\<rparr>),
               StateAssigned nxt]
            \<and> p_state (fst (snd (nextInteraction sv s msg))) =
                Some (nxt\<lparr>st_approach := approachAfter resp\<rparr>)
            \<and> approach (fst (snd (nextInteraction sv s msg))) = approachAfter resp
            \<and> fst (snd (nextInteraction sv s msg)) =
                s\<lparr>p_state := Some (nxt\<lparr>st_approach := approachAfter resp\<rparr>),
                  approach := approachAfter resp\<rparr>" for nxt
    using nextInteraction_step_change [OF assms, of nxt] by simp
  have b: "nextState resp = None \<longrightarrow>
            snd (snd (nextInteraction sv s msg)) = []
            \<and> fst (snd (nextInteraction sv s msg)) =
                s\<lparr>p_state := Some (st\<lparr>st_approach := approachAfter resp\<rparr>)\<rparr>"
    using nextInteraction_no_step_change [OF assms] by simp
  have c: "TokenCancelled x \<in> set (snd (snd (exec im s' op))) \<longrightarrow>
            (\<exists>m sv' nxt. op = Send m sv'
               \<and> snd (snd (exec im s' op)) = [TokenCancelled x, StateAssigned nxt])" for im s' op x
    using cancel_only_in_send [of x im s' op] by blast
  from a b c show ?thesis by (intro conjI allI) 
qed

lemma sample_collect:
  "collectFiles sample_services (sourceRoot (config (sample_in_phase ph))) = Inr [''a.ts'']"
  "collectFiles quiet_services (sourceRoot (config (sample_in_phase ph))) = Inr [''a.ts'']"
  by (simp_all add: sample_services_def quiet_services_def)

lemma sample_interact:
  "interact sample_services st a =
     Inr \<lparr> approachAfter = ''plan v2'', interaction = ''done'', nextState = Some sample_next \<rparr>"
  "interact quiet_services st a =
     Inr \<lparr> approachAfter = st_approach st, interaction = ''more?'', nextState = None \<rparr>"
  by (simp_all add: sample_services_def quiet_services_def)

theorem cancellation_on_step_change_witness:
  "collectFiles sample_services (sourceRoot (config (sample_in_phase ''Approach''))) = Inr [''a.ts'']
   \<and> state (sample_in_phase ''Approach'') = Inr (sample_state ''Approach'')
   \<and> snd (snd (nextInteraction sample_services (sample_in_phase ''Approach'') ''go'')) =
       [TokenCancelled ((sample_state ''Approach'')\<lparr>st_approach := ''plan v2'', tokenSource := True\<rparr>),
        StateAssigned sample_next]
   \<and> p_state (fst (snd (nextInteraction sample_services (sample_in_phase ''Approach'') ''go''))) =
       Some (sample_next\<lparr>st_approach := ''plan v2''\<rparr>)
   \<and> approach (fst (snd (nextInteraction sample_services (sample_in_phase ''Approach'') ''go''))) = ''plan v2''
   \<and> snd (snd (nextInteraction quiet_services (sample_in_phase ''Approach'') ''go'')) = []
   \<and> fst (snd (nextInteraction quiet_services (sample_in_phase ''Approach'') ''go'')) =
       sample_in_phase ''Approach''
   \<and> TokenCancelled ((sample_state ''Approach'')\<lparr>st_approach := ''plan v2'', tokenSource := True\<rparr>)
       \<in> set (snd (snd (exec sample_imported (sample_in_phase ''Approach'') (Send ''go'' sample_services))))
   \<and> (\<exists>m sv' nxt. Send ''go'' sample_services = Send m sv'
         \<and> snd (snd (exec sample_imported (sample_in_phase ''Approach'') (Send ''go'' sample_services))) =
             [TokenCancelled ((sample_state ''Approach'')\<lparr>st_approach := ''plan v2'', tokenSource := True\<rparr>),
              StateAssigned nxt])"
proof -
  let ?s = "sample_in_phase ''Approach''"
  let ?st = "sample_state ''Approach''"
  let ?old = "?st\<lparr>st_approach := ''plan v2'', tokenSource := True\<rparr>"
  note moved = cancellation_on_step_change
    [OF sample_collect(1) state_sample_in_phase sample_interact(1), of "''Approach''" "''go''"]
  note stayed = cancellation_on_step_change
    [OF sample_collect(2) state_sample_in_phase sample_interact(2), of "''Approach''" "''go''"]
  have m: "snd (snd (nextInteraction sample_services ?s ''go'')) = [TokenCancelled ?old, StateAssigned sample_next]
           \<and> p_state (fst (snd (nextInteraction sample_services ?s ''go''))) =
               Some (sample_next\<lparr>st_approach := ''plan v2''\<rparr>)
           \<and> approach (fst (snd (nextInteraction sample_services ?s ''go''))) = ''plan v2''"
    using moved [THEN conjunct1, rule_format, of sample_next] by simp
  have same: "?s\<lparr>p_state := Some (?st\<lparr>st_approach := st_approach ?st\<rparr>)\<rparr> = ?s"
    by (simp add: sample_in_phase_def)
  have q: "snd (snd (nextInteraction quiet_services ?s ''go'')) = []
           \<and> fst (snd (nextInteraction quiet_services ?s ''go'')) = ?s"
    using stayed [THEN conjunct2, THEN conjunct1] same by simp
  have ev: "snd (snd (exec sample_imported ?s (Send ''go'' sample_services))) =
              [TokenCancelled ?old, StateAssigned sample_next]"
    by (simp add: send_def nextInteraction_def Let_def state_def sample_in_phase_def
          sample_services_def sample_state_def)
  have mem: "TokenCancelled ?old \<in> set (snd (snd (exec sample_imported ?s (Send ''go'' sample_services))))"
    unfolding ev by simp
  note only = moved [THEN conjunct2, THEN conjunct2, rule_format, OF mem]
  from sample_collect(1) [of "''Approach''"] state_sample_in_phase [of "''Approach''"] m q mem only
  show ?thesis by (intro conjI) simp_all
qed

section \<open>Reading before the phase is reached\<close>

lemma conversationId_unset:
  "p_conversationId s = None \<or> p_conversationId s = Some [] \<Longrightarrow>
   conversationId s = Inl ConversationIdNotFoundError"
  by (auto simp: conversationId_def)

lemma unset_step:
  assumes "p_conversationId s = None \<or> p_conversationId s = Some []"
      and "\<not> completes im s op"
  shows "p_conversationId (after im s op) = None \<or> p_conversationId (after im s op) = Some []"
proof (cases op)
  case (Preloader msg created)
  show ?thesis
  proof (cases "preloaderFinished s")
    case True
    then show ?thesis using assms(1) Preloader by (simp add: after_def preloader_def)
  next
    case False
    with assms(2) Preloader have "isl (fst (setupConversation im s msg created))"
      by simp
    then show ?thesis using assms(1) Preloader False
      by (auto simp: after_def preloader_def setupConversation_def Let_def conversationId_def
            split: sum.splits if_splits)
  qed
qed (use assms(1) in \<open>simp_all add: after_def send_frame initCodegen_frame acceptChanges_same
        of_getter_same decreaseRetries_frame\<close>)

lemma unset_run:
  "p_conversationId s = None \<or> p_conversationId s = Some [] \<Longrightarrow> neverSetUp im s ops \<Longrightarrow>
   p_conversationId (run im s ops) = None \<or> p_conversationId (run im s ops) = Some []"
proof (induction ops arbitrary: s)
  case Nil
  then show ?case by simp
next
  case (Cons op ops)
  from Cons.prems have "\<not> completes im s op" and rest: "neverSetUp im (after im s op) ops"
    by simp_all
  with Cons.prems(1) have "p_conversationId (after im s op) = None \<or> p_conversationId (after im s op) = Some []"
    using unset_step by blast
  from Cons.IH [OF this rest] show ?case by simp
qed

lemma uploadId_missing:
  "state s = Inr st \<Longrightarrow> st_uploadId st = None \<Longrightarrow>
   uploadId s = Inl (Error ''UploadId has to be initialized before it's read'')"
  by (simp add: uploadId_def)

lemma preloader_sets_up:
  assumes "\<not> preloaderFinished s" and "cid \<noteq> []"
  shows "preloader im s msg (Inr cid) =
           (Inr Unit,
            s\<lparr>p_latestMessage := msg, p_conversationId := Some cid,
              p_state := Some (new_PrepareRefinementState im cid [] (tabID s)),
              preloaderFinished := True\<rparr>,
            [StateAssigned (new_PrepareRefinementState im cid [] (tabID s)),
             StartChatEmitted cid, AsyncEventProgressSent (tabID s) True])"
  using assms by (simp add: preloader_def setupConversation_def Let_def conversationId_def)

text \<open>
  C9. Reading an accessor before its phase is reached throws. On every Session that
  a run from a fresh Session arrives at without \<^verbatim>\<open>setupConversation\<close> having completed,
  and indeed on every Session whose \<^verbatim>\<open>_conversationId\<close> is undefined or empty, reading
  \<^verbatim>\<open>conversationId\<close> throws ConversationIdNotFoundError. Reading \<^verbatim>\<open>uploadId\<close> while
  the current state has no \<^verbatim>\<open>uploadId\<close> property throws; that is so on a fresh Session
  and on the Session the preloader leaves, whose states are built without an upload id.
  Neither getter changes the Session or causes an event.
\<close>

theorem accessors_throw_before_phase:
  "(\<forall>ops. neverSetUp im (Session_new im cfg tab) ops \<longrightarrow>
       conversationId (run im (Session_new im cfg tab) ops) = Inl ConversationIdNotFoundError)
   \<and> (p_conversationId s = None \<or> p_conversationId s = Some [] \<longrightarrow>
       conversationId s = Inl ConversationIdNotFoundError)
   \<and> (\<forall>st. state s = Inr st \<and> st_uploadId st = None \<longrightarrow>
       uploadId s = Inl (Error ''UploadId has to be initialized before it's read''))
   \<and> uploadId (Session_new im cfg tab) = Inl (Error ''UploadId has to be initialized before it's read'')
   \<and> (\<forall>msg cid. cid \<noteq> [] \<longrightarrow>
        uploadId (after im (Session_new im cfg tab) (Preloader msg (Inr cid))) =
          Inl (Error ''UploadId has to be initialized before it's read''))
   \<and> fst (snd (exec im s GetConversationId)) = s \<and> snd (snd (exec im s GetConversationId)) = []
   \<and> fst (snd (exec im s GetUploadId)) = s \<and> snd (snd (exec im s GetUploadId)) = []
   \<and> fst (exec im s GetConversationId) = map_sum id Str (conversationId s)
   \<and> fst (exec im s GetUploadId) = map_sum id Str (uploadId s)"
proof -
  let ?s0 = "Session_new im cfg tab"
  have fresh: "p_conversationId ?s0 = None \<or> p_conversationId ?s0 = Some []"
    by (simp add: Session_new_def)
  have a: "neverSetUp im ?s0 ops \<longrightarrow> conversationId (run im ?s0 ops) = Inl ConversationIdNotFoundError" for ops
    using unset_run [OF fresh] conversationId_unset by blast
  have b: "p_conversationId s = None \<or> p_conversationId s = Some [] \<longrightarrow>
       conversationId s = Inl ConversationIdNotFoundError"
    using conversationId_unset by blast
  have c: "state s = Inr st \<and> st_uploadId st = None \<longrightarrow>
       uploadId s = Inl (Error ''UploadId has to be initialized before it's read'')" for st
    using uploadId_missing by blast
  have d: "uploadId ?s0 = Inl (Error ''UploadId has to be initialized before it's read'')"
    by (simp add: uploadId_def state_def Session_new_def new_ConversationNotStartedState_def)
  have nf: "\<not> preloaderFinished ?s0"
    by (simp add: Session_new_def)
  have e: "cid \<noteq> [] \<longrightarrow>
        uploadId (after im ?s0 (Preloader msg (Inr cid))) =
          Inl (Error ''UploadId has to be initialized before it's read'')" for msg cid
    by (simp add: after_def preloader_sets_up [OF nf] uploadId_def state_def
          new_PrepareRefinementState_def)
  have f: "fst (snd (exec im s GetConversationId)) = s \<and> snd (snd (exec im s GetConversationId)) = []
   \<and> fst (snd (exec im s GetUploadId)) = s \<and> snd (snd (exec im s GetUploadId)) = []"
    by (simp add: of_getter_same of_getter_events)
  have g: "fst (exec im s GetConversationId) = map_sum id Str (conversationId s)
   \<and> fst (exec im s GetUploadId) = map_sum id Str (uploadId s)"
    by (simp add: of_getter_def split: sum.splits)
  from a b c d e f g show ?thesis by (intro conjI allI) simp_all
qed

lemma sample_never_set_up:
  "neverSetUp sample_imported sample_session
     [Preloader ''hi'' (Inl (Rejected ''offline'')), Preloader ''hi'' (Inr [])]"
  by (simp add: sample_session_def Session_new_def after_def preloader_def
        setupConversation_def conversationId_def Let_def)

theorem accessors_throw_before_phase_witness:
  "neverSetUp sample_imported sample_session
     [Preloader ''hi'' (Inl (Rejected ''offline'')), Preloader ''hi'' (Inr [])]
   \<and> conversationId (run sample_imported sample_session
        [Preloader ''hi'' (Inl (Rejected ''offline'')), Preloader ''hi'' (Inr [])])
       = Inl ConversationIdNotFoundError
   \<and> p_conversationId sample_session = None
   \<and> conversationId sample_session = Inl ConversationIdNotFoundError
   \<and> state sample_session = Inr (new_ConversationNotStartedState sample_imported [] ''tab-1'')
   \<and> st_uploadId (new_ConversationNotStartedState sample_imported [] ''tab-1'') = None
   \<and> uploadId sample_session = Inl (Error ''UploadId has to be initialized before it's read'')
   \<and> ''conv-1'' \<noteq> []
   \<and> uploadId (after sample_imported sample_session (Preloader ''hi'' (Inr ''conv-1''))) =
        Inl (Error ''UploadId has to be initialized before it's read'')"
proof -
  note r = accessors_throw_before_phase
    [of sample_imported sample_config "''tab-1''" sample_session, folded sample_session_def]
  have unset: "p_conversationId sample_session = None"
    by (simp add: sample_session_def Session_new_def)
  have st: "state sample_session = Inr (new_ConversationNotStartedState sample_imported [] ''tab-1'')"
    by (simp add: state_def sample_session_def Session_new_def)
  have no: "st_uploadId (new_ConversationNotStartedState sample_imported [] ''tab-1'') = None"
    by (simp add: new_ConversationNotStartedState_def)
  have ne: "''conv-1'' \<noteq> []" by simp
  note a = r [THEN conjunct1, rule_format, OF sample_never_set_up]
  have b: "conversationId sample_session = Inl ConversationIdNotFoundError"
    using r [THEN conjunct2, THEN conjunct1] unset by simp
  have c: "uploadId sample_session = Inl (Error ''UploadId has to be initialized before it's read'')"
    using r [THEN conjunct2, THEN conjunct2, THEN conjunct1, rule_format,
             of "new_ConversationNotStartedState sample_imported [] ''tab-1''"] st no
    by simp
  note e = r [THEN conjunct2, THEN conjunct2, THEN conjunct2, THEN conjunct2, THEN conjunct1,
              rule_format, OF ne]
  from sample_never_set_up a unset b st no c ne e [of "''hi''"]
  show ?thesis by (intro conjI)
qed

section \<open>The sequence of states\<close>























section \<open>Login\<close>








lemma login_effects_quiet:
  "CommandInvoked c \<notin> set (snd (snd (login env client)))
   \<and> ErrorMessageShown m \<notin> set (snd (snd (login env client)))"
  by (auto simp: login_def Let_def loginFailure_def split: option.splits sum.splits)







section \<open>The client injector\<close>

lemma injector_connected:
  "connected (clientFactory env) \<Longrightarrow>
   withClient env command args =
     (Some (command (clientFactory env) args), [CommandInvoked (clientFactory env)])"
  by (simp add: withClient_def createClientInjector_def Let_def)

lemma injector_after_login:
  assumes "\<not> connected (clientFactory env)"
      and "login env (clientFactory env) = (result, client', effs)"
  shows "withClient env command args =
           (if result = Succeeded \<and> connected client'
            then (Some (command client' args), effs @ [CommandInvoked client'])
            else (None, effs @ (if result = Failed
                                then [ErrorMessageShown ''AWS: Not connected to CODE.AWS'']
                                else [])))"
  using assms by (simp add: withClient_def createClientInjector_def Let_def)

lemma injector_invokes_connected:
  "CommandInvoked c \<in> set (snd (withClient env command args)) \<Longrightarrow> connected c"
proof (cases "connected (clientFactory env)")
  case True
  assume "CommandInvoked c \<in> set (snd (withClient env command args))"
  with True show ?thesis by (simp add: injector_connected)
next
  case False
  assume inv: "CommandInvoked c \<in> set (snd (withClient env command args))"
  obtain result client' effs where l: "login env (clientFactory env) = (result, client', effs)"
    by (cases "login env (clientFactory env)") auto
  have quiet: "CommandInvoked c \<notin> set effs"
    using login_effects_quiet [of c env "clientFactory env"] l by simp
  from inv quiet show ?thesis
    unfolding injector_after_login [OF False l] by (auto split: if_splits)
qed

text \<open>
  C5. A command dispatched through the client injector runs only with a connected
  client. Whatever the command and its arguments: every client the command is invoked
  with is connected. If the client of the factory is connected, the command is invoked
  with it and nothing else happens. If it is not, login runs first; the command is
  invoked, once and after login, exactly when login answers Succeeded and the client is
  connected afterwards. In every other case the dispatcher answers \<^verbatim>\<open>undefined\<close>, the
  command is not invoked, and the error 'AWS: Not connected to CODE.AWS' is shown exactly
  when login answered Failed. No other error message is ever shown.
\<close>

theorem commands_run_connected:
  "(\<forall>c. CommandInvoked c \<in> set (snd (withClient env command args)) \<longrightarrow> connected c)
   \<and> (connected (clientFactory env) \<longrightarrow>
        withClient env command args =
          (Some (command (clientFactory env) args), [CommandInvoked (clientFactory env)]))
   \<and> (\<forall>result client' effs.
        \<not> connected (clientFactory env) \<and> login env (clientFactory env) = (result, client', effs) \<longrightarrow>
          (result = Succeeded \<and> connected client' \<longrightarrow>
             withClient env command args =
               (Some (command client' args), effs @ [CommandInvoked client']))
          \<and> (\<not> (result = Succeeded \<and> connected client') \<longrightarrow>
               fst (withClient env command args) = None
               \<and> (\<forall>c. CommandInvoked c \<notin> set (snd (withClient env command args)))
               \<and> (\<exists>rest. snd (withClient env command args) = effs @ rest)
               \<and> (ErrorMessageShown ''AWS: Not connected to CODE.AWS''
                      \<in> set (snd (withClient env command args)) \<longleftrightarrow> result = Failed)))
   \<and> (\<forall>m. ErrorMessageShown m \<in> set (snd (withClient env command args)) \<longrightarrow>
        m = ''AWS: Not connected to CODE.AWS'' \<and> \<not> connected (clientFactory env)
        \<and> fst (login env (clientFactory env)) = Failed)"
proof -
  have a: "CommandInvoked c \<in> set (snd (withClient env command args)) \<longrightarrow> connected c" for c
    by (rule impI) (rule injector_invokes_connected)
  have b: "connected (clientFactory env) \<longrightarrow>
        withClient env command args =
          (Some (command (clientFactory env) args), [CommandInvoked (clientFactory env)])"
    by (simp add: injector_connected)
  have c: "\<not> connected (clientFactory env) \<and> login env (clientFactory env) = (result, client', effs) \<longrightarrow>
          (result = Succeeded \<and> connected client' \<longrightarrow>
             withClient env command args =
               (Some (command client' args), effs @ [CommandInvoked client']))
          \<and> (\<not> (result = Succeeded \<and> connected client') \<longrightarrow>
               fst (withClient env command args) = None
               \<and> (\<forall>c. CommandInvoked c \<notin> set (snd (withClient env command args)))
               \<and> (\<exists>rest. snd (withClient env command args) = effs @ rest)
               \<and> (ErrorMessageShown ''AWS: Not connected to CODE.AWS''
                      \<in> set (snd (withClient env command args)) \<longleftrightarrow> result = Failed))"
    for result client' effs
  proof
    assume h: "\<not> connected (clientFactory env) \<and> login env (clientFactory env) = (result, client', effs)"
    then have nc: "\<not> connected (clientFactory env)"
      and l: "login env (clientFactory env) = (result, client', effs)" by simp_all
    have quiet: "CommandInvoked x \<notin> set effs \<and> ErrorMessageShown m \<notin> set effs" for x m
      using login_effects_quiet [of x env "clientFactory env" m] l by simp
    show "(result = Succeeded \<and> connected client' \<longrightarrow>
             withClient env command args =
               (Some (command client' args), effs @ [CommandInvoked client']))
          \<and> (\<not> (result = Succeeded \<and> connected client') \<longrightarrow>
               fst (withClient env command args) = None
               \<and> (\<forall>c. CommandInvoked c \<notin> set (snd (withClient env command args)))
               \<and> (\<exists>rest. snd (withClient env command args) = effs @ rest)
               \<and> (ErrorMessageShown ''AWS: Not connected to CODE.AWS''
                      \<in> set (snd (withClient env command args)) \<longleftrightarrow> result = Failed))"
      unfolding injector_after_login [OF nc l] using quiet by auto
  qed
  have d: "ErrorMessageShown m \<in> set (snd (withClient env command args)) \<longrightarrow>
        m = ''AWS: Not connected to CODE.AWS'' \<and> \<not> connected (clientFactory env)
        \<and> fst (login env (clientFactory env)) = Failed" for m
  proof (cases "connected (clientFactory env)")
    case True
    then show ?thesis by (simp add: injector_connected)
  next
    case False
    obtain result client' effs where l: "login env (clientFactory env) = (result, client', effs)"
      by (cases "login env (clientFactory env)") auto
    have quiet: "ErrorMessageShown m \<notin> set effs"
      using login_effects_quiet [of _ env "clientFactory env" m] l by simp
    show ?thesis
      unfolding injector_after_login [OF False l] using quiet False l
      by (auto split: if_splits)
  qed
  from a b c d show ?thesis by (intro conjI allI)
qed

lemma sample_login_ok:
  "login sample_environment (clientFactory sample_environment) =
     (Succeeded, sample_online,
      [WizardRun, SetCredentialsCalled ''token-2'' ''meta'', SessionDeleted (sample_account ''1'')])"
  by (simp add: login_def Let_def sample_environment_def sample_accepting_def sample_offline_def
        sample_online_def sample_account_def)

lemma sample_login_refused:
  "login (sample_environment\<lparr>setCredentials := sample_refusing\<rparr>)
         (clientFactory (sample_environment\<lparr>setCredentials := sample_refusing\<rparr>)) =
     (Failed, sample_offline,
      [WizardRun, SetCredentialsCalled ''token-2'' ''meta'',
       ErrorLogged ''CAWS: failed to login: %O'' (Rejected ''403'')])"
  by (simp add: login_def Let_def loginFailure_def sample_environment_def sample_refusing_def
        sample_account_def)

theorem commands_run_connected_witness:
  "connected (clientFactory (sample_environment\<lparr>clientFactory := sample_online\<rparr>))
   \<and> withClient (sample_environment\<lparr>clientFactory := sample_online\<rparr>) sample_command ''repo'' =
       (Some ''cloned repo'', [CommandInvoked sample_online])
   \<and> \<not> connected (clientFactory sample_environment)
   \<and> connected sample_online
   \<and> withClient sample_environment sample_command ''repo'' =
       (Some ''cloned repo'',
        [WizardRun, SetCredentialsCalled ''token-2'' ''meta'', SessionDeleted (sample_account ''1''),
         CommandInvoked sample_online])
   \<and> \<not> connected (clientFactory (sample_environment\<lparr>setCredentials := sample_refusing\<rparr>))
   \<and> fst (withClient (sample_environment\<lparr>setCredentials := sample_refusing\<rparr>) sample_command ''repo'') = None
   \<and> ErrorMessageShown ''AWS: Not connected to CODE.AWS''
        \<in> set (snd (withClient (sample_environment\<lparr>setCredentials := sample_refusing\<rparr>) sample_command ''repo''))
   \<and> fst (login (sample_environment\<lparr>setCredentials := sample_refusing\<rparr>)
             (clientFactory (sample_environment\<lparr>setCredentials := sample_refusing\<rparr>))) = Failed"
proof -
  let ?on = "sample_environment\<lparr>clientFactory := sample_online\<rparr>"
  let ?bad = "sample_environment\<lparr>setCredentials := sample_refusing\<rparr>"
  have on: "connected (clientFactory ?on)" "connected sample_online"
    by (simp_all add: sample_online_def)
  have a: "withClient ?on sample_command ''repo'' = (Some ''cloned repo'', [CommandInvoked sample_online])"
    using commands_run_connected [of ?on sample_command "''repo''", THEN conjunct2, THEN conjunct1] on
    by (simp add: sample_command_def)
  have off: "\<not> connected (clientFactory sample_environment)"
            "\<not> connected (clientFactory ?bad)"
    by (simp_all add: sample_environment_def sample_offline_def)
  have h1: "\<not> connected (clientFactory sample_environment)
            \<and> login sample_environment (clientFactory sample_environment) =
               (Succeeded, sample_online,
                [WizardRun, SetCredentialsCalled ''token-2'' ''meta'', SessionDeleted (sample_account ''1'')])"
    using off(1) sample_login_ok by simp
  note ok = commands_run_connected [of sample_environment sample_command "''repo''",
              THEN conjunct2, THEN conjunct2, THEN conjunct1, rule_format, OF h1, THEN conjunct1]
  have b: "withClient sample_environment sample_command ''repo'' =
       (Some ''cloned repo'',
        [WizardRun, SetCredentialsCalled ''token-2'' ''meta'', SessionDeleted (sample_account ''1''),
         CommandInvoked sample_online])"
    using ok on(2) by (simp add: sample_command_def)
  have h2: "\<not> connected (clientFactory ?bad)
            \<and> login ?bad (clientFactory ?bad) =
               (Failed, sample_offline,
                [WizardRun, SetCredentialsCalled ''token-2'' ''meta'',
                 ErrorLogged ''CAWS: failed to login: %O'' (Rejected ''403'')])"
    using off(2) sample_login_refused by simp
  note no = commands_run_connected [of ?bad sample_command "''repo''",
              THEN conjunct2, THEN conjunct2, THEN conjunct1, rule_format, OF h2, THEN conjunct2]
  have c: "fst (withClient ?bad sample_command ''repo'') = None
           \<and> ErrorMessageShown ''AWS: Not connected to CODE.AWS''
                \<in> set (snd (withClient ?bad sample_command ''repo''))"
    using no by simp
  have shown: "ErrorMessageShown ''AWS: Not connected to CODE.AWS''
                \<in> set (snd (withClient ?bad sample_command ''repo''))"
    using c by simp
  note d = commands_run_connected [of ?bad sample_command "''repo''",
              THEN conjunct2, THEN conjunct2, THEN conjunct2, rule_format, OF shown]
  from on a off b c d show ?thesis by (intro conjI) simp_all
qed

section \<open>The content of a log stream document\<close>

text \<open>
  C10. \<^verbatim>\<open>provideTextDocumentContent\<close> is total on the registry lookup. For every URI
  it asks the registry for the content with timestamps; when the registry has content it
  answers that content, and when the registry has none it answers the empty string and
  only logs the miss. It logs nothing when the content is not empty.
\<close>

theorem provideTextDocumentContent_total:
  "(\<forall>c. getLogContent registry uri \<lparr> timestamps = True \<rparr> = Some c \<longrightarrow>
        fst (provideTextDocumentContent registry uri) = c
        \<and> (c \<noteq> [] \<longrightarrow> snd (provideTextDocumentContent registry uri) = []))
   \<and> (getLogContent registry uri \<lparr> timestamps = True \<rparr> = None \<longrightarrow>
        provideTextDocumentContent registry uri = ([], [NoContentFound uri]))"
  by (simp add: provideTextDocumentContent_def Let_def)

theorem provideTextDocumentContent_total_witness:
  "getLogContent sample_registry sample_uri \<lparr> timestamps = True \<rparr> = Some ''12:00 started''
   \<and> fst (provideTextDocumentContent sample_registry sample_uri) = ''12:00 started''
   \<and> snd (provideTextDocumentContent sample_registry sample_uri) = []
   \<and> getLogContent sample_registry (sample_uri\<lparr>path := ''other:region''\<rparr>) \<lparr> timestamps = True \<rparr> = None
   \<and> provideTextDocumentContent sample_registry (sample_uri\<lparr>path := ''other:region''\<rparr>) =
        ([], [NoContentFound (sample_uri\<lparr>path := ''other:region''\<rparr>)])"
proof -
  let ?other = "sample_uri\<lparr>path := ''other:region''\<rparr>"
  have hit: "getLogContent sample_registry sample_uri \<lparr> timestamps = True \<rparr> = Some ''12:00 started''"
    by (simp add: sample_registry_def)
  have miss: "getLogContent sample_registry ?other \<lparr> timestamps = True \<rparr> = None"
    by (simp add: sample_registry_def sample_uri_def)
  note a = provideTextDocumentContent_total [of sample_registry sample_uri, THEN conjunct1,
             rule_format, OF hit]
  have b: "snd (provideTextDocumentContent sample_registry sample_uri) = []"
    using a [THEN conjunct2] by simp
  note c = provideTextDocumentContent_total [of sample_registry ?other, THEN conjunct2,
             rule_format, OF miss]
  from hit a [THEN conjunct1] b miss c show ?thesis by (intro conjI)
qed

end
